theory Spec2Isabelle
  imports Main "HOL-Library.Word"
begin

section \<open>JavaScript strings\<close>

text \<open>
  A JavaScript string is a sequence of UTF-16 code units, and \<open>s.length\<close> counts code
  units. String literals of the source are written \<open>lit ''...''\<close>.
\<close>

type_synonym code_unit = "16 word"
type_synonym jsstring = "code_unit list"

definition lit :: "string \<Rightarrow> jsstring" where
  "lit s = map of_char s"

text \<open>
  The code units \<open>String.prototype.trim\<close> strips: ECMAScript's WhiteSpace (TAB, VT, FF,
  ZWNBSP and the space separators) and LineTerminator (LF, CR, LS, PS).
\<close>

definition is_ws :: "code_unit \<Rightarrow> bool" where
  "is_ws c \<longleftrightarrow>
     c \<in> set [0x9, 0xA, 0xB, 0xC, 0xD, 0x20, 0xA0, 0x1680, 0x2028, 0x2029,
               0x202F, 0x205F, 0x3000, 0xFEFF]
     \<or> (0x2000 \<le> c \<and> c \<le> 0x200A)"

definition trim :: "jsstring \<Rightarrow> jsstring" where
  "trim s = rev (dropWhile is_ws (rev (dropWhile is_ws s)))"

definition starts_with_ws :: "jsstring \<Rightarrow> bool" where
  "starts_with_ws s = (case s of [] \<Rightarrow> False | c # _ \<Rightarrow> is_ws c)"

definition ends_with_ws :: "jsstring \<Rightarrow> bool" where
  "ends_with_ws s = starts_with_ws (rev s)"

text \<open>The decimal digits of a non-negative integer, as a template literal prints it.\<close>

fun digits :: "nat \<Rightarrow> jsstring" where
  "digits n =
     (if n < 10 then [of_nat (48 + n)]
      else digits (n div 10) @ [of_nat (48 + n mod 10)])"

declare digits.simps [simp del]

section \<open>Validation helpers (utils/validation.js)\<close>

text \<open>
  A property of the object handed to \<open>sanitizeNoteInput\<close> or \<open>validateNote\<close>:
  absent or \<open>undefined\<close>, \<open>null\<close>, a string, or any other value. Of a value that is not
  a string the code only uses \<open>String(v)\<close>, so \<open>Other\<close> carries that string (a value
  on which \<open>String\<close> itself throws is not an input here).
\<close>

datatype field = Missing | Null | Text jsstring | Other jsstring

record note_input =
  title :: field
  content :: field

definition MAX_TITLE :: nat where
  "MAX_TITLE = 200"

definition MAX_CONTENT :: nat where
  "MAX_CONTENT = 10000"

text \<open>The default \<open>= ''\<close> of the destructuring pattern applies to \<open>undefined\<close> only.\<close>

fun default_empty :: "field \<Rightarrow> field" where
  "default_empty Missing = Text []"
| "default_empty v = v"

text \<open>\<open>v ?? ''\<close> replaces \<open>null\<close> and \<open>undefined\<close>.\<close>

fun nullish_empty :: "field \<Rightarrow> field" where
  "nullish_empty Missing = Text []"
| "nullish_empty Null = Text []"
| "nullish_empty v = v"

fun String :: "field \<Rightarrow> jsstring" where
  "String Missing = lit ''undefined''"
| "String Null = lit ''null''"
| "String (Text s) = s"
| "String (Other s) = s"

definition sanitizeNoteInput :: "note_input \<Rightarrow> note_input" where
  "sanitizeNoteInput x =
     (let t = trim (String (nullish_empty (default_empty (title x))));
          c = trim (String (nullish_empty (default_empty (content x))))
      in \<lparr>title = Text t, content = Text c\<rparr>)"

text \<open>The \<open>errors\<close> object: a key that was never assigned is \<open>None\<close>.\<close>

record errors =
  title_error :: "jsstring option"
  content_error :: "jsstring option"

record validation =
  valid :: bool
  errors :: errors

definition validateNote :: "note_input \<Rightarrow> validation" where
  "validateNote x =
     (let e0 = \<lparr>title_error = None, content_error = None\<rparr>;
          t = String (nullish_empty (default_empty (title x)));
          c = String (nullish_empty (default_empty (content x)));
          e1 = (if length t = 0 then e0\<lparr>title_error := Some (lit ''Title is required.'')\<rparr>
                else e0);
          e2 = (if length t > MAX_TITLE
                then e1\<lparr>title_error :=
                  Some (lit ''Title must be at most '' @ digits MAX_TITLE @ lit '' characters.'')\<rparr>
                else e1);
          e3 = (if length c > MAX_CONTENT
                then e2\<lparr>content_error :=
                  Some (lit ''Content must be at most '' @ digits MAX_CONTENT @ lit '' characters.'')\<rparr>
                else e2)
      in \<lparr>valid = (title_error e3 = None \<and> content_error e3 = None), errors = e3\<rparr>)"

section \<open>JavaScript values\<close>

text \<open>
  The values the transport and the coordinator handle: what \<open>JSON.parse\<close> returns,
  and \<open>undefined\<close>. An object is the association list of its own properties (the
  first binding of a key is its value). Of a number this code only asks whether it is
  zero and whether it equals another one, so numbers are integers here.
\<close>

datatype jsval =
    JUndefined
  | JNull
  | JBool bool
  | JNum int
  | JStr jsstring
  | JArr "jsval list"
  | JObj "(jsstring \<times> jsval) list"

fun truthy :: "jsval \<Rightarrow> bool" where
  "truthy JUndefined = False"
| "truthy JNull = False"
| "truthy (JBool b) = b"
| "truthy (JNum n) = (n \<noteq> 0)"
| "truthy (JStr s) = (s \<noteq> [])"
| "truthy (JArr xs) = True"
| "truthy (JObj kvs) = True"

text \<open>
  Reading a property \<open>v.k\<close>. On \<open>undefined\<close> and \<open>null\<close> JavaScript throws a TypeError
  (\<open>None\<close>). The keys this program reads (\<open>detail\<close>, \<open>message\<close>, \<open>error\<close>, \<open>id\<close>) are
  not built-in properties of strings, numbers, booleans or arrays, which therefore yield
  \<open>undefined\<close>.
\<close>

fun get_prop :: "jsval \<Rightarrow> jsstring \<Rightarrow> jsval option" where
  "get_prop JUndefined k = None"
| "get_prop JNull k = None"
| "get_prop (JObj kvs) k = Some (case map_of kvs k of None \<Rightarrow> JUndefined | Some v \<Rightarrow> v)"
| "get_prop v k = Some JUndefined"

text \<open>
  \<open>a || b\<close> and \<open>a && b\<close>, where evaluating an operand may throw (\<open>None\<close>) and the
  right operand is evaluated only when the left one does not decide.
\<close>

definition or_else :: "jsval option \<Rightarrow> jsval option \<Rightarrow> jsval option" where
  "or_else a b = (case a of None \<Rightarrow> None | Some x \<Rightarrow> if truthy x then Some x else b)"

definition and_then :: "jsval option \<Rightarrow> jsval option \<Rightarrow> jsval option" where
  "and_then a b = (case a of None \<Rightarrow> None | Some x \<Rightarrow> if truthy x then b else Some x)"

definition js_or :: "jsval \<Rightarrow> jsval \<Rightarrow> jsval" where
  "js_or a b = (if truthy a then a else b)"

text \<open>
  \<open>a === b\<close> on primitives. Objects and arrays are compared by reference; two values
  that were parsed or built separately are never the same reference, so they compare
  unequal here. (A note's \<open>id\<close> is a string or a number.)
\<close>

fun strict_eq :: "jsval \<Rightarrow> jsval \<Rightarrow> bool" where
  "strict_eq (JArr xs) b = False"
| "strict_eq (JObj kvs) b = False"
| "strict_eq a b = (a = b)"

definition is_nullish :: "jsval \<Rightarrow> bool" where
  "is_nullish v \<longleftrightarrow> v = JUndefined \<or> v = JNull"

fun isArray :: "jsval \<Rightarrow> bool" where
  "isArray (JArr xs) = True"
| "isArray v = False"

section \<open>Transport (api/client.js)\<close>

record outcome =
  ok :: bool
  status :: nat
  error :: jsval
  data :: jsval

text \<open>
  What \<open>fetch\<close> delivers: the status line, the body, and what \<open>JSON.parse\<close> makes of
  the body's text (\<open>None\<close> when it throws). Reading the body with \<open>res.text()\<close>
  resolves with the text (however late), rejects, or never settles because the body
  never completes.
\<close>

datatype body = Reads jsstring | Rejects | Stalls

record response =
  res_status :: nat
  res_body :: body
  res_json :: "jsval option"

definition res_ok :: "response \<Rightarrow> bool" where
  "res_ok res \<longleftrightarrow> 200 \<le> res_status res \<and> res_status res \<le> 299"

text \<open>
  The network, as far as one call sees it: after how many milliseconds \<open>fetch\<close> would
  settle if left alone (\<open>None\<close>: never), and whether it then resolves with a response
  or rejects with a connection-level failure.
\<close>

datatype settlement = Responds response | Fails

record network =
  settles_after :: "nat option"
  settlement :: settlement

datatype http_method = GET | POST | PUT | DELETE

text \<open>
  The path of a request: \<open>Notes\<close> is \<open>/notes\<close>, and \<open>Note safeId\<close> is \<open>/notes/\<close> followed
  by \<open>safeId\<close>. Headers and the serialized body play no part in what follows and are
  left out.
\<close>

datatype resource = Notes | Note jsstring

record request =
  rq_method :: http_method
  rq_path :: resource
  rq_body :: "note_input option"
  timeoutMs :: "nat option"

definition DEFAULT_TIMEOUT_MS :: nat where
  "DEFAULT_TIMEOUT_MS = 10000"

text \<open>
  The timer of \<open>setTimeout(() => controller.abort(), timeoutMs)\<close>: armed, fired (the
  callback ran: the call was aborted), or cleared by \<open>clearTimeout\<close>.
\<close>

datatype timer = Armed | Fired | Cleared

fun clearTimeout :: "timer \<Rightarrow> timer" where
  "clearTimeout Armed = Cleared"
| "clearTimeout Fired = Fired"
| "clearTimeout Cleared = Cleared"

text \<open>
  The delay \<open>setTimeout\<close> really waits: the browser converts the number to a signed
  32-bit integer (the timeout is a \<open>long\<close> in the HTML standard), wrapping around, and
  takes a negative delay as 0. So a delay from 2^31 up to 2^32 - 1 fires at once.
\<close>

definition timer_delay :: "nat \<Rightarrow> nat" where
  "timer_delay ms = nat (max 0 (sint (of_nat ms :: 32 word)))"

datatype awaited = Resolved response | TypeError | AbortError

text \<open>
  \<open>await fetch(url, opts)\<close> with the abort signal: the call settles by itself when it
  does so before the timer fires; otherwise the timer fires, the controller aborts
  the call, and the \<open>await\<close> throws an AbortError. (When both fall on the same
  millisecond the timer is taken to come first.)
\<close>

definition fetch :: "nat \<Rightarrow> network \<Rightarrow> awaited \<times> timer" where
  "fetch budget net =
     (case settles_after net of
        None \<Rightarrow> (AbortError, Fired)
      | Some t \<Rightarrow>
          if t < timer_delay budget
          then (case settlement net of
                  Responds res \<Rightarrow> (Resolved res, Armed)
                | Fails \<Rightarrow> (TypeError, Armed))
          else (AbortError, Fired))"

text \<open>
  \<open>(data && (data.detail || data.message || data.error)) || `Request failed with
  status ${res.status}`\<close>
\<close>

definition error_message :: "jsval \<Rightarrow> nat \<Rightarrow> jsval option" where
  "error_message d st =
     or_else
       (and_then (Some d)
          (or_else (or_else (get_prop d (lit ''detail'')) (get_prop d (lit ''message'')))
             (get_prop d (lit ''error''))))
       (Some (JStr (lit ''Request failed with status '' @ digits st)))"

text \<open>
  What \<open>apiRequest\<close> gives its caller is an outcome, or nothing at all when its promise
  never settles (\<open>None\<close>), together with the state in which it leaves the timer. The
  \<open>catch\<close> block:
\<close>

definition catch :: "bool \<Rightarrow> timer \<Rightarrow> outcome option \<times> timer" where
  "catch isAbort tm =
     (let tm' = clearTimeout tm;
          message = (if isAbort then lit ''Request timed out'' else lit ''Network error'')
      in (Some \<lparr>ok = False, status = 0, error = JStr message, data = JNull\<rparr>, tm'))"

text \<open>The default of the \<open>timeoutMs\<close> option.\<close>

definition budget_of :: "request \<Rightarrow> nat" where
  "budget_of rq = (case timeoutMs rq of None \<Rightarrow> DEFAULT_TIMEOUT_MS | Some t \<Rightarrow> t)"

text \<open>
  \<open>await res.text().catch(() => '')\<close>: the text, the empty string when the body
  cannot be read, and \<open>None\<close> when the read never settles. By then the timer has been
  cleared, so nothing bounds this wait.
\<close>

definition res_text :: "response \<Rightarrow> jsstring option" where
  "res_text res = (case res_body res of Reads t \<Rightarrow> Some t | Rejects \<Rightarrow> Some [] | Stalls \<Rightarrow> None)"

text \<open>
  The text as \<open>data\<close>: parsed as JSON when it is not empty, the raw text when parsing
  throws, \<open>null\<close> when it is empty.
\<close>

definition parse_body :: "response \<Rightarrow> jsstring \<Rightarrow> jsval" where
  "parse_body res text =
     (if text \<noteq> [] then (case res_json res of Some j \<Rightarrow> j | None \<Rightarrow> JStr text)
      else JNull)"

definition apiRequest :: "request \<Rightarrow> network \<Rightarrow> outcome option \<times> timer" where
  "apiRequest rq net =
     (case fetch (budget_of rq) net of
        (Resolved res, tm) \<Rightarrow>
          (let tm' = clearTimeout tm
           in case res_text res of
                None \<Rightarrow> (None, tm')
              | Some text \<Rightarrow>
                  (let d = parse_body res text
                   in if \<not> res_ok res
                      then (case error_message d (res_status res) of
                              Some message \<Rightarrow>
                                (Some \<lparr>ok = False, status = res_status res, error = message,
                                       data = JNull\<rparr>, tm')
                            | None \<Rightarrow> catch False tm')
                      else (Some \<lparr>ok = True, status = res_status res, error = JNull,
                                  data = d\<rparr>, tm')))
      | (TypeError, tm) \<Rightarrow> catch False tm
      | (AbortError, tm) \<Rightarrow> catch True tm)"

text \<open>
  For stating which value the error is: the property \<open>k\<close> of a body \<open>d\<close>, \<open>undefined\<close>
  when \<open>d\<close> has none.
\<close>

definition field_of :: "jsval \<Rightarrow> string \<Rightarrow> jsval" where
  "field_of d k = (case get_prop d (lit k) of None \<Rightarrow> JUndefined | Some v \<Rightarrow> v)"

text \<open>
  The RequestOutcome invariant of the data model: with \<open>ok\<close> the error is \<open>null\<close>;
  without it the data is \<open>null\<close> and the error is a message, a string that is not
  empty.
\<close>

definition is_message :: "jsval \<Rightarrow> bool" where
  "is_message v = (case v of JStr m \<Rightarrow> m \<noteq> [] | _ \<Rightarrow> False)"

definition RequestOutcome :: "outcome \<Rightarrow> bool" where
  "RequestOutcome r = (if ok r then error r = JNull else data r = JNull \<and> is_message (error r))"

text \<open>
  The network contract for error bodies: when the body of a response that is not 2xx
  is JSON, each of its \<open>detail\<close>, \<open>message\<close> and \<open>error\<close> fields is text, or absent, or
  \<open>null\<close>.
\<close>

fun text_or_absent :: "jsval \<Rightarrow> bool" where
  "text_or_absent JUndefined = True"
| "text_or_absent JNull = True"
| "text_or_absent (JStr m) = True"
| "text_or_absent v = False"

definition error_body_contract :: "response \<Rightarrow> bool" where
  "error_body_contract res =
     (200 \<le> res_status res \<and> res_status res \<le> 299
      \<or> (case res_json res of
            None \<Rightarrow> True
          | Some j \<Rightarrow>
              text_or_absent (field_of j ''detail'')
              \<and> text_or_absent (field_of j ''message'')
              \<and> text_or_absent (field_of j ''error'')))"

definition network_contract :: "network \<Rightarrow> bool" where
  "network_contract net =
     (case settlement net of Responds res \<Rightarrow> error_body_contract res | Fails \<Rightarrow> True)"

text \<open>
  The status of an outcome, in the data model's words: the HTTP status of the
  response, or 0 for a failure at the level of the transport.
\<close>

definition outcome_status :: "network \<Rightarrow> outcome \<Rightarrow> bool" where
  "outcome_status net r =
     (case settlement net of
        Responds res \<Rightarrow> status r = res_status res \<or> (\<not> ok r \<and> status r = 0)
      | Fails \<Rightarrow> \<not> ok r \<and> status r = 0)"

section \<open>Resource client (hooks/useNotesApi.js)\<close>

text \<open>
  The hook's state: the in-flight counter, the \<open>loading\<close> and \<open>error\<close> values it
  exposes (the coordinator names them \<open>apiLoading\<close> and \<open>apiError\<close>), and the requests
  handed to \<open>apiRequest\<close> so far.
\<close>

record api_state =
  inFlight :: int
  apiLoading :: bool
  apiError :: jsval
  sent :: "request list"

definition api_init :: api_state where
  "api_init = \<lparr>inFlight = 0, apiLoading = False, apiError = JNull, sent = []\<rparr>"

text \<open>
  \<open>withLoading(fn)\<close> runs in two uninterrupted parts. The first runs up to the \<open>await\<close>
  inside \<open>apiRequest\<close>: the counter, the flag, then \<open>fn\<close> hands its request to the
  transport. The second runs when the request has settled: \<open>setError\<close> on a failure,
  then the \<open>finally\<close> block. Other operations may run between the two.
\<close>

definition withLoading_start :: "request \<Rightarrow> api_state \<Rightarrow> api_state" where
  "withLoading_start rq s =
     (let s1 = s\<lparr>inFlight := inFlight s + 1\<rparr>;
          s2 = s1\<lparr>apiLoading := True\<rparr>
      in s2\<lparr>sent := sent s2 @ [rq]\<rparr>)"

definition withLoading_settle :: "outcome \<Rightarrow> api_state \<Rightarrow> api_state" where
  "withLoading_settle res s =
     (let s1 = (if \<not> ok res
                then s\<lparr>apiError := js_or (error res) (JStr (lit ''Unknown error''))\<rparr>
                else s);
          s2 = s1\<lparr>inFlight := inFlight s1 - 1\<rparr>
      in if inFlight s2 \<le> 0 then s2\<lparr>inFlight := 0, apiLoading := False\<rparr> else s2)"

text \<open>
  What awaiting an operation of the hook gives: it returns an outcome, it throws (its
  promise rejects), or its promise never settles.
\<close>

datatype call = Returns outcome | Throws | Never

text \<open>
  One operation run without interruption: \<open>fn\<close> is the request it sends and what it
  makes of the transport's outcome. When the transport never answers, the second
  part never runs.
\<close>

definition withLoading ::
  "request \<Rightarrow> (outcome \<Rightarrow> outcome) \<Rightarrow> network \<Rightarrow> api_state \<Rightarrow> call \<times> api_state" where
  "withLoading rq fn net s =
     (let s1 = withLoading_start rq s
      in case fst (apiRequest rq net) of
           None \<Rightarrow> (Never, s1)
         | Some r \<Rightarrow> (let res = fn r in (Returns res, withLoading_settle res s1)))"




definition clearError :: "api_state \<Rightarrow> api_state" where
  "clearError s = s\<lparr>apiError := JNull\<rparr>"

definition expect_array :: "outcome \<Rightarrow> outcome" where
  "expect_array res =
     (if \<not> ok res then res
      else (let d = (if isArray (data res) then data res else JArr [])
            in \<lparr>ok = True, status = status res, error = JNull, data = d\<rparr>))"

definition listNotes :: "network \<Rightarrow> api_state \<Rightarrow> call \<times> api_state" where
  "listNotes net s =
     withLoading \<lparr>rq_method = GET, rq_path = Notes, rq_body = None, timeoutMs = None\<rparr>
       expect_array net s"

text \<open>
  \<open>encodeURIComponent(String(id))\<close> is a parameter of the operations that build a path
  from an id: \<open>encode i\<close> is the string it returns, and \<open>None\<close> when it throws (a
  URIError on a lone surrogate). It runs before \<open>withLoading\<close> is entered.
\<close>

definition getNote ::
  "(jsval \<Rightarrow> jsstring option) \<Rightarrow> jsval \<Rightarrow> network \<Rightarrow> api_state \<Rightarrow> call \<times> api_state" where
  "getNote encode i net s =
     (case encode i of
        None \<Rightarrow> (Throws, s)
      | Some safeId \<Rightarrow>
          withLoading
            \<lparr>rq_method = GET, rq_path = Note safeId, rq_body = None, timeoutMs = None\<rparr>
            (\<lambda>res. res) net s)"

text \<open>\<open>errors.title\<close>, \<open>errors.content\<close>: \<open>undefined\<close> when the key is absent.\<close>

fun message_of :: "jsstring option \<Rightarrow> jsval" where
  "message_of None = JUndefined"
| "message_of (Some m) = JStr m"

definition createNote :: "note_input \<Rightarrow> network \<Rightarrow> api_state \<Rightarrow> call \<times> api_state" where
  "createNote inp net s =
     (let payload = sanitizeNoteInput inp;
          v = validateNote payload
      in if \<not> valid v
         then (Returns
                 \<lparr>ok = False, status = 400,
                  error = js_or (js_or (message_of (title_error (errors v)))
                                       (message_of (content_error (errors v))))
                            (JStr (lit ''Validation failed'')),
                  data = JNull\<rparr>, s)
         else withLoading
                \<lparr>rq_method = POST, rq_path = Notes, rq_body = Some payload, timeoutMs = None\<rparr>
                (\<lambda>res. res) net s)"

definition updateNote ::
  "(jsval \<Rightarrow> jsstring option) \<Rightarrow> jsval \<Rightarrow> note_input \<Rightarrow> network \<Rightarrow> api_state
     \<Rightarrow> call \<times> api_state" where
  "updateNote encode i inp net s =
     (let payload = sanitizeNoteInput inp;
          v = validateNote payload
      in if \<not> valid v
         then (Returns
                 \<lparr>ok = False, status = 400,
                  error = js_or (js_or (message_of (title_error (errors v)))
                                       (message_of (content_error (errors v))))
                            (JStr (lit ''Validation failed'')),
                  data = JNull\<rparr>, s)
         else (case encode i of
                 None \<Rightarrow> (Throws, s)
               | Some safeId \<Rightarrow>
                   withLoading
                     \<lparr>rq_method = PUT, rq_path = Note safeId, rq_body = Some payload,
                      timeoutMs = None\<rparr>
                     (\<lambda>res. res) net s))"

definition deleteNote ::
  "(jsval \<Rightarrow> jsstring option) \<Rightarrow> jsval \<Rightarrow> network \<Rightarrow> api_state \<Rightarrow> call \<times> api_state" where
  "deleteNote encode i net s =
     (case encode i of
        None \<Rightarrow> (Throws, s)
      | Some safeId \<Rightarrow>
          withLoading
            \<lparr>rq_method = DELETE, rq_path = Note safeId, rq_body = None, timeoutMs = None\<rparr>
            (\<lambda>res. res) net s)"

section \<open>Coordinator (App.js)\<close>

record app_state =
  api :: api_state
  "notes" :: "jsval list"
  selectedNoteId :: jsval
  selectedNote :: jsval
  busy :: bool
  listLoading :: bool
  listError :: jsval

definition app_init :: app_state where
  "app_init =
     \<lparr>api = api_init, notes = [], selectedNoteId = JNull, selectedNote = JNull,
      busy = False, listLoading = True, listError = JNull\<rparr>"

text \<open>The error the coordinator shows: \<open>apiError || listError\<close>.\<close>

definition appError :: "app_state \<Rightarrow> jsval" where
  "appError s = js_or (apiError (api s)) (listError s)"

text \<open>
  \<open>prev.filter(p)\<close> and \<open>prev.map(f)\<close> over the collection, where the callback reads
  \<open>n.id\<close> and so throws on an element that is \<open>null\<close> or \<open>undefined\<close> (\<open>None\<close>).
\<close>

fun filter_notes :: "(jsval \<Rightarrow> bool option) \<Rightarrow> jsval list \<Rightarrow> jsval list option" where
  "filter_notes p [] = Some []"
| "filter_notes p (n # ns) =
     (case p n of
        None \<Rightarrow> None
      | Some keep \<Rightarrow>
          (case filter_notes p ns of
             None \<Rightarrow> None
           | Some rest \<Rightarrow> Some (if keep then n # rest else rest)))"

fun map_notes :: "(jsval \<Rightarrow> jsval option) \<Rightarrow> jsval list \<Rightarrow> jsval list option" where
  "map_notes f [] = Some []"
| "map_notes f (n # ns) =
     (case f n of
        None \<Rightarrow> None
      | Some m \<Rightarrow>
          (case map_notes f ns of
             None \<Rightarrow> None
           | Some rest \<Rightarrow> Some (m # rest)))"

text \<open>\<open>(n) => n.id !== tempId\<close>\<close>

definition id_differs :: "jsval \<Rightarrow> jsval \<Rightarrow> bool option" where
  "id_differs tempId n =
     (case get_prop n (lit ''id'') of None \<Rightarrow> None | Some i \<Rightarrow> Some (\<not> strict_eq i tempId))"

text \<open>\<open>(n) => (n.id === selectedNoteId ? res.data : n)\<close>\<close>

definition replace_selected :: "jsval \<Rightarrow> jsval \<Rightarrow> jsval \<Rightarrow> jsval option" where
  "replace_selected sel d n =
     (case get_prop n (lit ''id'') of
        None \<Rightarrow> None
      | Some i \<Rightarrow> Some (if strict_eq i sel then d else n))"

text \<open>\<open>`temp-${Date.now()}`\<close>, with \<open>now\<close> the clock's milliseconds.\<close>

definition temp_id :: "nat \<Rightarrow> jsval" where
  "temp_id now = JStr (lit ''temp-'' @ digits now)"

definition placeholder :: "nat \<Rightarrow> jsval" where
  "placeholder now =
     JObj [(lit ''id'', temp_id now),
           (lit ''title'', JStr (lit ''Untitled note'')),
           (lit ''content'', JStr [])]"

text \<open>
  How a handler or an effect of the coordinator ends, with the state it leaves: it
  runs to its end; an exception escapes it (its promise rejects); it waits forever
  for an operation that never settles; or a state updater throws while the new state
  is computed, which leaves no state.
\<close>

datatype flow = Completed app_state | Escaped app_state | Suspended app_state | Crashed

text \<open>
  \<open>handleAddNote\<close>, run without interruption against a network that answers the create
  request as \<open>net\<close> says.
\<close>

definition handleAddNote :: "nat \<Rightarrow> network \<Rightarrow> app_state \<Rightarrow> flow" where
  "handleAddNote now net s =
     (let s1 = s\<lparr>busy := True\<rparr>;
          tempId = temp_id now;
          optimistic = placeholder now;
          s2 = s1\<lparr>notes := optimistic # notes s1\<rparr>;
          s3 = s2\<lparr>selectedNoteId := tempId\<rparr>;
          s4 = s3\<lparr>selectedNote := optimistic\<rparr>;
          (c, a) = createNote \<lparr>title = Text (lit ''Untitled note''), content = Text []\<rparr>
                     net (api s4);
          s5 = s4\<lparr>api := a\<rparr>
      in case c of
           Never \<Rightarrow> Suspended s5
         | Throws \<Rightarrow> Escaped s5
         | Returns res \<Rightarrow>
             if ok res \<and> truthy (data res)
             then (case filter_notes (id_differs tempId) (notes s5) of
                     None \<Rightarrow> Crashed
                   | Some withoutTemp \<Rightarrow>
                       (case get_prop (data res) (lit ''id'') of
                          None \<Rightarrow> Escaped s5
                        | Some newId \<Rightarrow>
                            Completed
                              (s5\<lparr>notes := data res # withoutTemp, selectedNoteId := newId,
                                  selectedNote := data res, busy := False\<rparr>)))
             else (case filter_notes (id_differs tempId) (notes s5) of
                     None \<Rightarrow> Crashed
                   | Some rest \<Rightarrow> Completed (s5\<lparr>notes := rest, busy := False\<rparr>)))"

text \<open>\<open>handleSaveNote(payload)\<close>, likewise.\<close>

definition handleSaveNote ::
  "(jsval \<Rightarrow> jsstring option) \<Rightarrow> note_input \<Rightarrow> network \<Rightarrow> app_state \<Rightarrow> flow" where
  "handleSaveNote encode payload net s =
     (if \<not> truthy (selectedNoteId s) then Completed s
      else
        (let s1 = s\<lparr>busy := True\<rparr>;
             (c, a) = updateNote encode (selectedNoteId s) payload net (api s1);
             s2 = s1\<lparr>api := a\<rparr>
         in case c of
              Never \<Rightarrow> Suspended s2
            | Throws \<Rightarrow> Escaped s2
            | Returns res \<Rightarrow>
                if ok res \<and> truthy (data res)
                then (case map_notes (replace_selected (selectedNoteId s) (data res))
                             (notes s2) of
                        None \<Rightarrow> Crashed
                      | Some ns \<Rightarrow>
                          Completed (s2\<lparr>selectedNote := data res, notes := ns, busy := False\<rparr>))
                else Completed (s2\<lparr>busy := False\<rparr>)))"

text \<open>
  The effect that loads the selected note. It runs whenever the selected id has
  changed, also after \<open>handleAddNote\<close> has selected the temporary id.
\<close>

definition loadSelectedNote ::
  "(jsval \<Rightarrow> jsstring option) \<Rightarrow> network \<Rightarrow> app_state \<Rightarrow> flow" where
  "loadSelectedNote encode net s =
     (if \<not> truthy (selectedNoteId s) then Completed (s\<lparr>selectedNote := JNull\<rparr>)
      else
        (let s1 = s\<lparr>busy := True\<rparr>;
             (c, a) = getNote encode (selectedNoteId s) net (api s1);
             s2 = s1\<lparr>api := a\<rparr>
         in case c of
              Never \<Rightarrow> Suspended s2
            | Throws \<Rightarrow> Escaped s2
            | Returns res \<Rightarrow>
                (let s3 = (if ok res then s2\<lparr>selectedNote := data res\<rparr>
                           else s2\<lparr>selectedNote := JNull\<rparr>)
                 in Completed (s3\<lparr>busy := False\<rparr>))))"

text \<open>The state a flow leaves, if any.\<close>

fun state_left :: "flow \<Rightarrow> app_state option" where
  "state_left (Completed s) = Some s"
| "state_left (Escaped s) = Some s"
| "state_left (Suspended s) = Some s"
| "state_left Crashed = None"

section \<open>Properties of trimming\<close>

lemma dropWhile_fixed:
  "\<not> starts_with_ws s \<Longrightarrow> dropWhile is_ws s = s"
  by (cases s) (simp_all add: starts_with_ws_def)

lemma dropWhile_no_lead: "\<not> starts_with_ws (dropWhile is_ws s)"
  by (induction s) (simp_all add: starts_with_ws_def)

lemma dropWhile_rev_keeps_head:
  "\<not> starts_with_ws s \<Longrightarrow> \<not> starts_with_ws (rev (dropWhile is_ws (rev s)))"
proof (cases s)
  case Nil
  then show ?thesis by (simp add: starts_with_ws_def)
next
  case (Cons c cs)
  assume "\<not> starts_with_ws s"
  with Cons have c: "\<not> is_ws c" by (simp add: starts_with_ws_def)
  have "dropWhile is_ws (rev cs @ [c]) = dropWhile is_ws (rev cs) @ [c]
      \<or> dropWhile is_ws (rev cs @ [c]) = [c]"
    using c by (simp add: dropWhile_append)
  then show ?thesis
    using Cons c by (auto simp: starts_with_ws_def split: list.splits)
qed

lemma trim_no_lead: "\<not> starts_with_ws (trim s)"
  unfolding trim_def by (rule dropWhile_rev_keeps_head) (rule dropWhile_no_lead)

lemma trim_no_trail: "\<not> ends_with_ws (trim s)"
  by (simp add: ends_with_ws_def trim_def dropWhile_no_lead)

lemma trim_fixed:
  assumes "\<not> starts_with_ws s" and "\<not> ends_with_ws s"
  shows "trim s = s"
proof -
  have "dropWhile is_ws (rev s) = rev s"
    using assms(2) by (simp add: ends_with_ws_def dropWhile_fixed)
  then show ?thesis
    using assms(1) by (simp add: trim_def dropWhile_fixed)
qed

lemma trim_idem: "trim (trim s) = trim s"
  by (rule trim_fixed) (rule trim_no_lead, rule trim_no_trail)

lemma length_trim_le: "length (trim s) \<le> length s"
proof -
  have "length (trim s) \<le> length (dropWhile is_ws s)"
    unfolding trim_def length_rev
    by (rule order_trans [OF length_dropWhile_le]) simp
  also have "\<dots> \<le> length s"
    by (rule length_dropWhile_le)
  finally show ?thesis .
qed

section \<open>Validation after sanitization\<close>

lemma validateNote_Text:
  "validateNote \<lparr>title = Text t, content = Text c\<rparr> =
     \<lparr>valid = (1 \<le> length t \<and> length t \<le> 200 \<and> length c \<le> 10000),
      errors = \<lparr>title_error =
                 (if length t > 200
                  then Some (lit ''Title must be at most '' @ digits MAX_TITLE @ lit '' characters.'')
                  else if length t = 0 then Some (lit ''Title is required.'') else None),
               content_error =
                 (if length c > 10000
                  then Some (lit ''Content must be at most '' @ digits MAX_CONTENT @ lit '' characters.'')
                  else None)\<rparr>\<rparr>"
  by (auto simp: validateNote_def Let_def MAX_TITLE_def MAX_CONTENT_def Suc_le_eq)

lemma sanitizeNoteInput_Text:
  "sanitizeNoteInput \<lparr>title = Text t, content = Text c\<rparr> =
     \<lparr>title = Text (trim t), content = Text (trim c)\<rparr>"
  by (simp add: sanitizeNoteInput_def)

text \<open>What the composition accepts, exactly: the lengths that count are those after trimming.\<close>

lemma validate_sanitize_iff:
  "valid (validateNote (sanitizeNoteInput \<lparr>title = Text t, content = Text c\<rparr>))
   \<longleftrightarrow> 1 \<le> length (trim t) \<and> length (trim t) \<le> 200 \<and> length (trim c) \<le> 10000"
  by (simp add: sanitizeNoteInput_Text validateNote_Text)

text \<open>
  Claim C5, as stated, fails: a title of length 1 that is a single space is trimmed to the
  empty string by \<open>sanitizeNoteInput\<close>, and \<open>validateNote\<close> then reports that the
  title is required.
\<close>

theorem validate_sanitize_blank_title_invalid:
  "1 \<le> length [0x20 :: code_unit] \<and> length [0x20 :: code_unit] \<le> 200
   \<and> length ([] :: jsstring) \<le> 10000
   \<and> \<not> valid (validateNote (sanitizeNoteInput \<lparr>title = Text [0x20], content = Text []\<rparr>))
   \<and> title_error (errors (validateNote
         (sanitizeNoteInput \<lparr>title = Text [0x20], content = Text []\<rparr>)))
       = Some (lit ''Title is required.'')"
  by (simp add: sanitizeNoteInput_Text validateNote_Text trim_def is_ws_def)

text \<open>
  Claim C5, amended: for every pair of strings \<open>title\<close>, \<open>content\<close> with \<open>len(title) \<le> 200\<close>,
  \<open>len(content) \<le> 10000\<close> and a title that keeps at least one character when trimmed
  (\<open>1 \<le> len(trim(title))\<close>), \<open>validateNote(sanitizeNoteInput({title, content}))\<close>
  returns \<open>valid: true\<close>.
\<close>

theorem validate_sanitize_valid:
  assumes "1 \<le> length (trim t)" and "length t \<le> 200" and "length c \<le> 10000"
  shows "valid (validateNote (sanitizeNoteInput \<lparr>title = Text t, content = Text c\<rparr>))"
proof -
  have "length (trim t) \<le> 200"
    using length_trim_le [of t] assms(2) by linarith
  moreover have "length (trim c) \<le> 10000"
    using length_trim_le [of c] assms(3) by linarith
  ultimately show ?thesis
    using assms(1) by (simp add: sanitizeNoteInput_Text validateNote_Text)
qed

theorem validate_sanitize_valid_witness:
  "1 \<le> length (trim (lit ''A'')) \<and> length (lit ''A'') \<le> 200 \<and> length (lit ''B'') \<le> 10000
   \<and> valid (validateNote (sanitizeNoteInput \<lparr>title = Text (lit ''A''), content = Text (lit ''B'')\<rparr>))"
proof -
  have t: "1 \<le> length (trim (lit ''A''))"
    by (simp add: trim_def lit_def is_ws_def)
  have l: "length (lit ''A'') \<le> 200" "length (lit ''B'') \<le> 10000"
    by (simp_all add: lit_def)
  show ?thesis
    using validate_sanitize_valid [OF t l] t l by simp
qed

text \<open>
  Claim C10: \<open>sanitizeNoteInput\<close> is idempotent; its output has string-valued \<open>title\<close> and
  \<open>content\<close> with no leading or trailing whitespace; a field that is \<open>null\<close> or
  \<open>undefined\<close> (or absent) comes out as the empty string.
\<close>

theorem sanitizeNoteInput_idempotent:
  "sanitizeNoteInput (sanitizeNoteInput x) = sanitizeNoteInput x
   \<and> (\<exists>t c. sanitizeNoteInput x = \<lparr>title = Text t, content = Text c\<rparr>
        \<and> \<not> starts_with_ws t \<and> \<not> ends_with_ws t
        \<and> \<not> starts_with_ws c \<and> \<not> ends_with_ws c)
   \<and> title (sanitizeNoteInput (x\<lparr>title := Null\<rparr>)) = Text []
   \<and> title (sanitizeNoteInput (x\<lparr>title := Missing\<rparr>)) = Text []
   \<and> content (sanitizeNoteInput (x\<lparr>content := Null\<rparr>)) = Text []
   \<and> content (sanitizeNoteInput (x\<lparr>content := Missing\<rparr>)) = Text []"
proof -
  have idem: "sanitizeNoteInput (sanitizeNoteInput x) = sanitizeNoteInput x"
    by (simp add: sanitizeNoteInput_def Let_def trim_idem)
  have shape: "\<exists>t c. sanitizeNoteInput x = \<lparr>title = Text t, content = Text c\<rparr>
        \<and> \<not> starts_with_ws t \<and> \<not> ends_with_ws t
        \<and> \<not> starts_with_ws c \<and> \<not> ends_with_ws c"
    by (simp add: sanitizeNoteInput_def Let_def trim_no_lead trim_no_trail)
  have empty: "trim [] = []"
    by (simp add: trim_def)
  show ?thesis
    using idem shape by (simp add: sanitizeNoteInput_def empty)
qed

section \<open>The transport's outcomes\<close>

lemma timer_delay_small: "ms < 2 ^ 31 \<Longrightarrow> timer_delay ms = ms"
proof -
  assume small: "ms < 2 ^ 31"
  have "sint (of_nat ms :: 32 word) = signed_take_bit 31 (int ms)"
    by (simp add: signed_of_nat)
  also have "\<dots> = int ms"
    using small by (intro signed_take_bit_int_eq_self) simp_all
  finally show ?thesis
    by (simp add: timer_delay_def)
qed

lemma get_prop_truthy: "truthy d \<Longrightarrow> \<exists>v. get_prop d k = Some v"
  by (cases d) simp_all

lemma error_message_eq:
  "error_message d st =
     Some (if truthy d \<and> truthy (field_of d ''detail'') then field_of d ''detail''
           else if truthy d \<and> truthy (field_of d ''message'') then field_of d ''message''
           else if truthy d \<and> truthy (field_of d ''error'') then field_of d ''error''
           else JStr (lit ''Request failed with status '' @ digits st))"
proof (cases "truthy d")
  case False
  then show ?thesis
    by (simp add: error_message_def or_else_def and_then_def)
next
  case True
  obtain a b c where
    "get_prop d (lit ''detail'') = Some a"
    "get_prop d (lit ''message'') = Some b"
    "get_prop d (lit ''error'') = Some c"
    using get_prop_truthy [OF True] by meson
  with True show ?thesis
    by (simp add: error_message_def or_else_def and_then_def field_of_def lit_def)
qed

lemma error_message_truthy:
  "error_message d st = Some m \<Longrightarrow> truthy m"
  by (auto simp: error_message_eq lit_def split: if_splits)

lemma text_or_absent_message:
  "text_or_absent v \<Longrightarrow> truthy v \<Longrightarrow> is_message v"
  by (cases v) (simp_all add: is_message_def)

lemma error_message_text:
  assumes "text_or_absent (field_of d ''detail'')"
    and "text_or_absent (field_of d ''message'')"
    and "text_or_absent (field_of d ''error'')"
  shows "is_message (the (error_message d st))"
proof -
  have generic: "is_message (JStr (lit ''Request failed with status '' @ digits st))"
    by (simp add: is_message_def lit_def)
  show ?thesis
    using assms generic by (auto simp: error_message_eq text_or_absent_message)
qed

lemma fetch_cases:
  "fetch budget net = (AbortError, Fired)
   \<or> (\<exists>t. settles_after net = Some t \<and> t < timer_delay budget \<and>
        (fetch budget net = (TypeError, Armed) \<and> settlement net = Fails
         \<or> (\<exists>res. fetch budget net = (Resolved res, Armed) \<and> settlement net = Responds res)))"
  by (auto simp: fetch_def split: option.splits settlement.splits)

lemma apiRequest_aborted:
  assumes "fetch (budget_of rq) net = (AbortError, tm)"
  shows "apiRequest rq net =
           (Some \<lparr>ok = False, status = 0, error = JStr (lit ''Request timed out''),
                  data = JNull\<rparr>,
            clearTimeout tm)"
  using assms by (simp add: apiRequest_def catch_def)

lemma apiRequest_failed:
  assumes "fetch (budget_of rq) net = (TypeError, tm)"
  shows "apiRequest rq net =
           (Some \<lparr>ok = False, status = 0, error = JStr (lit ''Network error''), data = JNull\<rparr>,
            clearTimeout tm)"
  using assms by (simp add: apiRequest_def catch_def)

lemma apiRequest_resolved:
  assumes "fetch (budget_of rq) net = (Resolved res, tm)"
  shows "apiRequest rq net =
           (case res_text res of
              None \<Rightarrow> None
            | Some text \<Rightarrow>
                Some (if res_ok res
                      then \<lparr>ok = True, status = res_status res, error = JNull,
                            data = parse_body res text\<rparr>
                      else \<lparr>ok = False, status = res_status res,
                            error = the (error_message (parse_body res text) (res_status res)),
                            data = JNull\<rparr>),
            clearTimeout tm)"
  using assms
  by (simp add: apiRequest_def Let_def error_message_eq split: option.splits)

lemma apiRequest_timer: "snd (apiRequest rq net) \<noteq> Armed"
proof -
  consider tm where "fetch (budget_of rq) net = (AbortError, tm)"
    | tm where "fetch (budget_of rq) net = (TypeError, tm)"
    | res tm where "fetch (budget_of rq) net = (Resolved res, tm)"
    by (cases "fetch (budget_of rq) net"; cases "fst (fetch (budget_of rq) net)") auto
  then show ?thesis
  proof cases
    case 1 then show ?thesis by (cases tm) (simp_all add: apiRequest_aborted)
  next
    case 2 then show ?thesis by (cases tm) (simp_all add: apiRequest_failed)
  next
    case 3 then show ?thesis by (cases tm) (simp_all add: apiRequest_resolved)
  qed
qed

text \<open>The four shapes of an outcome of \<open>apiRequest\<close>, and the one way it gives none.\<close>

lemma apiRequest_shape:
  "(\<exists>tm. apiRequest rq net =
      (Some \<lparr>ok = False, status = 0, error = JStr (lit ''Request timed out''), data = JNull\<rparr>,
       tm))
   \<or> (\<exists>tm. apiRequest rq net =
      (Some \<lparr>ok = False, status = 0, error = JStr (lit ''Network error''), data = JNull\<rparr>, tm))
   \<or> (\<exists>res text tm. settlement net = Responds res \<and> res_text res = Some text \<and> res_ok res
        \<and> apiRequest rq net =
      (Some \<lparr>ok = True, status = res_status res, error = JNull, data = parse_body res text\<rparr>,
       tm))
   \<or> (\<exists>res text tm. settlement net = Responds res \<and> res_text res = Some text \<and> \<not> res_ok res
        \<and> apiRequest rq net =
      (Some \<lparr>ok = False, status = res_status res,
             error = the (error_message (parse_body res text) (res_status res)),
             data = JNull\<rparr>, tm))
   \<or> (\<exists>res. settlement net = Responds res \<and> res_text res = None
        \<and> apiRequest rq net = (None, Cleared))"
  using fetch_cases [of "budget_of rq" net]
  by (auto simp: apiRequest_aborted apiRequest_failed apiRequest_resolved split: option.splits)


lemma apiRequest_RequestOutcome:
  assumes "network_contract net" and "fst (apiRequest rq net) = Some r"
  shows "RequestOutcome r"
    and "\<not> ok r \<and> status r = 0
         \<or> (\<exists>res. settlement net = Responds res \<and> status r = res_status res)"
proof -
  have fields: "text_or_absent (field_of (parse_body res t) k)"
    if "settlement net = Responds res" "\<not> res_ok res"
      "k = ''detail'' \<or> k = ''message'' \<or> k = ''error''" for res t k
    using assms(1) that
    by (auto simp: network_contract_def error_body_contract_def res_ok_def parse_body_def
        field_of_def split: option.splits)
  have contract: "is_message (the (error_message (parse_body res t) (res_status res)))"
    if "settlement net = Responds res" "res_text res = Some t" "\<not> res_ok res" for res t
    using that fields [of res _ t] by (intro error_message_text) simp_all
  show "RequestOutcome r"
    using apiRequest_shape [of rq net] assms(2) contract
    by (auto simp: RequestOutcome_def is_message_def lit_def)
  show "\<not> ok r \<and> status r = 0
         \<or> (\<exists>res. settlement net = Responds res \<and> status r = res_status res)"
    using apiRequest_shape [of rq net] assms(2) by auto
qed

lemma apiRequest_outcome_status:
  assumes "fst (apiRequest rq net) = Some r"
  shows "outcome_status net r"
  using apiRequest_shape [of rq net] assms
  by (cases "settlement net") (auto simp: outcome_status_def)

text \<open>
  When \<open>fetch\<close> settles only after the budget, or never, the timer fires, which aborts
  the call, and \<open>apiRequest\<close> resolves with the timed-out outcome. The budget is the
  caller's \<open>timeoutMs\<close>, and 10000 ms when the caller gives none.
\<close>

lemma apiRequest_times_out:
  assumes "timeoutMs rq = Some b \<or> timeoutMs rq = None \<and> b = 10000"
    and "b < 2 ^ 31"
    and "settles_after net = None \<or> (\<exists>t. settles_after net = Some t \<and> b < t)"
  shows "apiRequest rq net =
           (Some \<lparr>ok = False, status = 0, error = JStr (lit ''Request timed out''),
                  data = JNull\<rparr>, Fired)"
proof -
  have "budget_of rq = b"
    using assms(1) by (auto simp: budget_of_def DEFAULT_TIMEOUT_MS_def)
  then have "fetch (budget_of rq) net = (AbortError, Fired)"
    using assms(2,3) by (auto simp: fetch_def timer_delay_small)
  then show ?thesis
    by (simp add: apiRequest_aborted)
qed

lemmas transport_defs =
  apiRequest_def fetch_def catch_def budget_of_def DEFAULT_TIMEOUT_MS_def timer_delay_def
  res_ok_def res_text_def parse_body_def error_message_def or_else_def and_then_def lit_def

text \<open>
  The caller's budget is the one that counts: with 50 ms a response after 100 ms
  comes too late; with 20000 ms a response after 15000 ms is delivered, which the
  default budget would have cut off.
\<close>

lemma apiRequest_honours_timeoutMs:
  "apiRequest \<lparr>rq_method = GET, rq_path = Notes, rq_body = None, timeoutMs = Some 50\<rparr>
     \<lparr>settles_after = Some 100,
      settlement = Responds \<lparr>res_status = 200, res_body = Reads (lit ''[]''),
        res_json = Some (JArr [])\<rparr>\<rparr>
   = (Some \<lparr>ok = False, status = 0, error = JStr (lit ''Request timed out''), data = JNull\<rparr>,
      Fired)
   \<and> apiRequest \<lparr>rq_method = GET, rq_path = Notes, rq_body = None, timeoutMs = Some 20000\<rparr>
     \<lparr>settles_after = Some 15000,
      settlement = Responds \<lparr>res_status = 200, res_body = Reads (lit ''[]''),
        res_json = Some (JArr [])\<rparr>\<rparr>
   = (Some \<lparr>ok = True, status = 200, error = JNull, data = JArr []\<rparr>, Cleared)
   \<and> apiRequest \<lparr>rq_method = GET, rq_path = Notes, rq_body = None, timeoutMs = None\<rparr>
     \<lparr>settles_after = Some 15000,
      settlement = Responds \<lparr>res_status = 200, res_body = Reads (lit ''[]''),
        res_json = Some (JArr [])\<rparr>\<rparr>
   = (Some \<lparr>ok = False, status = 0, error = JStr (lit ''Request timed out''), data = JNull\<rparr>,
      Fired)"
  by (simp add: transport_defs)

text \<open>
  Claim C8, evaluated: a response whose status line and headers arrive after 40 ms
  and whose body never completes. \<open>apiRequest\<close> has cleared the timer when \<open>fetch\<close>
  resolved and then waits for the body without a bound: it never resolves, no abort
  comes, and \<open>listNotes\<close> over it never settles either, the counter staying at 1 and
  the loading flag staying true.
\<close>

theorem apiRequest_stalled_body_never_resolves:
  "apiRequest \<lparr>rq_method = GET, rq_path = Notes, rq_body = None, timeoutMs = None\<rparr>
     \<lparr>settles_after = Some 40,
      settlement = Responds \<lparr>res_status = 200, res_body = Stalls, res_json = None\<rparr>\<rparr>
   = (None, Cleared)
   \<and> listNotes
     \<lparr>settles_after = Some 40,
      settlement = Responds \<lparr>res_status = 200, res_body = Stalls, res_json = None\<rparr>\<rparr>
     api_init
   = (Never,
      \<lparr>inFlight = 1, apiLoading = True, apiError = JNull,
       sent = [\<lparr>rq_method = GET, rq_path = Notes, rq_body = None, timeoutMs = None\<rparr>]\<rparr>)"
  by (simp add: transport_defs listNotes_def withLoading_def withLoading_start_def api_init_def)

section \<open>The resource client's operations\<close>

lemmas run_defs =
  listNotes_def getNote_def deleteNote_def createNote_def updateNote_def
  withLoading_def withLoading_start_def withLoading_settle_def expect_array_def
  transport_defs js_or_def
  sanitizeNoteInput_Text validateNote_Text trim_def is_ws_def api_init_def

lemma withLoading_cases:
  "(fst (apiRequest rq net) = None
      \<and> withLoading rq fn net s = (Never, withLoading_start rq s))
   \<or> (\<exists>r. fst (apiRequest rq net) = Some r
      \<and> withLoading rq fn net s =
          (Returns (fn r), withLoading_settle (fn r) (withLoading_start rq s)))"
  by (cases "fst (apiRequest rq net)") (simp_all add: withLoading_def Let_def)









lemma sanitize_shape:
  "\<exists>t c. sanitizeNoteInput inp = \<lparr>title = Text t, content = Text c\<rparr>"
  by (simp add: sanitizeNoteInput_def Let_def)

lemma invalid_message:
  assumes "\<not> valid (validateNote (sanitizeNoteInput inp))"
  shows "\<exists>m. m \<noteq> []
     \<and> (title_error (errors (validateNote (sanitizeNoteInput inp))) = Some m
        \<or> title_error (errors (validateNote (sanitizeNoteInput inp))) = None
          \<and> content_error (errors (validateNote (sanitizeNoteInput inp))) = Some m)
     \<and> js_or (js_or (message_of (title_error (errors (validateNote (sanitizeNoteInput inp)))))
                     (message_of (content_error (errors (validateNote (sanitizeNoteInput inp))))))
          (JStr (lit ''Validation failed'')) = JStr m"
proof -
  obtain t c where tc: "sanitizeNoteInput inp = \<lparr>title = Text t, content = Text c\<rparr>"
    using sanitize_shape by blast
  show ?thesis
    using assms unfolding tc validateNote_Text
    by (auto simp: js_or_def lit_def Suc_le_eq)
qed

lemma createNote_invalid:
  assumes "\<not> valid (validateNote (sanitizeNoteInput inp))"
  shows "\<exists>m. m \<noteq> []
     \<and> (title_error (errors (validateNote (sanitizeNoteInput inp))) = Some m
        \<or> title_error (errors (validateNote (sanitizeNoteInput inp))) = None
          \<and> content_error (errors (validateNote (sanitizeNoteInput inp))) = Some m)
     \<and> createNote inp net s =
         (Returns \<lparr>ok = False, status = 400, error = JStr m, data = JNull\<rparr>, s)"
  using assms invalid_message [OF assms] by (auto simp: createNote_def Let_def)

lemma updateNote_invalid:
  assumes "\<not> valid (validateNote (sanitizeNoteInput inp))"
  shows "\<exists>m. m \<noteq> []
     \<and> (title_error (errors (validateNote (sanitizeNoteInput inp))) = Some m
        \<or> title_error (errors (validateNote (sanitizeNoteInput inp))) = None
          \<and> content_error (errors (validateNote (sanitizeNoteInput inp))) = Some m)
     \<and> updateNote encode i inp net s =
         (Returns \<lparr>ok = False, status = 400, error = JStr m, data = JNull\<rparr>, s)"
  using assms invalid_message [OF assms] by (auto simp: updateNote_def Let_def)

text \<open>
  Claim C2: when \<open>validateNote(sanitizeNoteInput(input))\<close> is not valid, \<open>createNote\<close>
  and \<open>updateNote\<close> return \<open>{ ok: false, status: 400, error: m, data: null }\<close>, where
  \<open>m\<close> is the title's message if the title fails and the content's message
  otherwise, and leave the hook's state as it was: no request reaches the transport
  and the in-flight counter is not touched.
\<close>

theorem invalid_input_rejected_locally:
  assumes "\<not> valid (validateNote (sanitizeNoteInput inp))"
  shows "\<exists>m. m \<noteq> []
     \<and> (title_error (errors (validateNote (sanitizeNoteInput inp))) = Some m
        \<or> title_error (errors (validateNote (sanitizeNoteInput inp))) = None
          \<and> content_error (errors (validateNote (sanitizeNoteInput inp))) = Some m)
     \<and> createNote inp net s =
         (Returns \<lparr>ok = False, status = 400, error = JStr m, data = JNull\<rparr>, s)
     \<and> updateNote encode i inp net s =
         (Returns \<lparr>ok = False, status = 400, error = JStr m, data = JNull\<rparr>, s)
     \<and> sent (snd (createNote inp net s)) = sent s
     \<and> sent (snd (updateNote encode i inp net s)) = sent s
     \<and> inFlight (snd (createNote inp net s)) = inFlight s
     \<and> inFlight (snd (updateNote encode i inp net s)) = inFlight s"
proof -
  obtain m where m: "m \<noteq> []"
    "title_error (errors (validateNote (sanitizeNoteInput inp))) = Some m
        \<or> title_error (errors (validateNote (sanitizeNoteInput inp))) = None
          \<and> content_error (errors (validateNote (sanitizeNoteInput inp))) = Some m"
    and c: "createNote inp net s =
      (Returns \<lparr>ok = False, status = 400, error = JStr m, data = JNull\<rparr>, s)"
    using createNote_invalid [OF assms] by blast
  obtain m' where m':
    "title_error (errors (validateNote (sanitizeNoteInput inp))) = Some m'
        \<or> title_error (errors (validateNote (sanitizeNoteInput inp))) = None
          \<and> content_error (errors (validateNote (sanitizeNoteInput inp))) = Some m'"
    and u: "updateNote encode i inp net s =
      (Returns \<lparr>ok = False, status = 400, error = JStr m', data = JNull\<rparr>, s)"
    using updateNote_invalid [OF assms] by blast
  have "m' = m"
    using m(2) m' by auto
  then show ?thesis
    using m c u by auto
qed

theorem invalid_input_rejected_locally_witness:
  "\<not> valid (validateNote (sanitizeNoteInput \<lparr>title = Text (lit ''  ''), content = Text (lit ''x'')\<rparr>))
   \<and> createNote \<lparr>title = Text (lit ''  ''), content = Text (lit ''x'')\<rparr>
        \<lparr>settles_after = Some 40, settlement = Fails\<rparr> api_init
      = (Returns \<lparr>ok = False, status = 400, error = JStr (lit ''Title is required.''),
                  data = JNull\<rparr>,
         api_init)
   \<and> updateNote (\<lambda>i. Some (lit ''7'')) (JNum 7)
        \<lparr>title = Text (lit ''  ''), content = Text (lit ''x'')\<rparr>
        \<lparr>settles_after = Some 40, settlement = Fails\<rparr> api_init
      = (Returns \<lparr>ok = False, status = 400, error = JStr (lit ''Title is required.''),
                  data = JNull\<rparr>,
         api_init)
   \<and> sent (snd (createNote \<lparr>title = Text (lit ''  ''), content = Text (lit ''x'')\<rparr>
        \<lparr>settles_after = Some 40, settlement = Fails\<rparr> api_init)) = []"
proof -
  have inv: "\<not> valid (validateNote
      (sanitizeNoteInput \<lparr>title = Text (lit ''  ''), content = Text (lit ''x'')\<rparr>))"
    by (simp add: sanitizeNoteInput_Text validateNote_Text trim_def is_ws_def lit_def)
  have e: "title_error (errors (validateNote
      (sanitizeNoteInput \<lparr>title = Text (lit ''  ''), content = Text (lit ''x'')\<rparr>)))
      = Some (lit ''Title is required.'')"
    by (simp add: sanitizeNoteInput_Text validateNote_Text trim_def is_ws_def lit_def)
  show ?thesis
    using invalid_input_rejected_locally [OF inv,
        of "\<lparr>settles_after = Some 40, settlement = Fails\<rparr>" api_init
           "\<lambda>i. Some (lit ''7'')" "JNum 7"] inv e
    by (auto simp: api_init_def)
qed

text \<open>
  Claim C9: when the transport's outcome for the list request is \<open>ok\<close>, \<open>listNotes\<close>
  returns \<open>ok: true\<close> with the empty list as \<open>data\<close> if the body is not an array, and
  with the body itself if it is one.
\<close>

theorem listNotes_normalizes:
  assumes "apiRequest \<lparr>rq_method = GET, rq_path = Notes, rq_body = None, timeoutMs = None\<rparr> net
             = (Some res, tm)"
    and "ok res"
  shows "\<exists>r. fst (listNotes net s) = Returns r
     \<and> ok r
     \<and> status r = status res
     \<and> error r = JNull
     \<and> (\<not> isArray (data res) \<longrightarrow> data r = JArr [])
     \<and> (isArray (data res) \<longrightarrow> data r = data res)"
  using assms by (simp add: listNotes_def withLoading_def Let_def expect_array_def)

theorem listNotes_normalizes_witness:
  "fst (listNotes
     \<lparr>settles_after = Some 40,
      settlement = Responds \<lparr>res_status = 200, res_body = Reads (lit ''{\"notes\":[]}''),
        res_json = Some (JObj [(lit ''notes'', JArr [])])\<rparr>\<rparr> api_init)
   = Returns \<lparr>ok = True, status = 200, error = JNull, data = JArr []\<rparr>
   \<and> fst (listNotes
     \<lparr>settles_after = Some 40,
      settlement = Responds \<lparr>res_status = 200, res_body = Reads (lit ''[7]''),
        res_json = Some (JArr [JNum 7])\<rparr>\<rparr> api_init)
   = Returns \<lparr>ok = True, status = 200, error = JNull, data = JArr [JNum 7]\<rparr>"
proof -
  have a: "apiRequest \<lparr>rq_method = GET, rq_path = Notes, rq_body = None, timeoutMs = None\<rparr>
      \<lparr>settles_after = Some 40,
       settlement = Responds \<lparr>res_status = 200, res_body = Reads (lit ''{\"notes\":[]}''),
         res_json = Some (JObj [(lit ''notes'', JArr [])])\<rparr>\<rparr>
      = (Some \<lparr>ok = True, status = 200, error = JNull,
               data = JObj [(lit ''notes'', JArr [])]\<rparr>, Cleared)"
    by (simp add: transport_defs)
  have b: "apiRequest \<lparr>rq_method = GET, rq_path = Notes, rq_body = None, timeoutMs = None\<rparr>
      \<lparr>settles_after = Some 40,
       settlement = Responds \<lparr>res_status = 200, res_body = Reads (lit ''[7]''),
         res_json = Some (JArr [JNum 7])\<rparr>\<rparr>
      = (Some \<lparr>ok = True, status = 200, error = JNull, data = JArr [JNum 7]\<rparr>, Cleared)"
    by (simp add: transport_defs)
  show ?thesis
    using listNotes_normalizes [OF a, of api_init] listNotes_normalizes [OF b, of api_init]
    by auto
qed




lemma createNote_valid:
  assumes "valid (validateNote (sanitizeNoteInput inp))"
  shows "createNote inp net s =
           withLoading \<lparr>rq_method = POST, rq_path = Notes,
                         rq_body = Some (sanitizeNoteInput inp), timeoutMs = None\<rparr>
             (\<lambda>res. res) net s"
  using assms by (simp add: createNote_def Let_def)

lemma updateNote_valid:
  assumes "valid (validateNote (sanitizeNoteInput inp))"
  shows "updateNote encode i inp net s =
           (case encode i of
              None \<Rightarrow> (Throws, s)
            | Some safeId \<Rightarrow>
                withLoading \<lparr>rq_method = PUT, rq_path = Note safeId,
                              rq_body = Some (sanitizeNoteInput inp), timeoutMs = None\<rparr>
                  (\<lambda>res. res) net s)"
  using assms by (simp add: updateNote_def Let_def)







lemmas app_defs =
  handleAddNote_def handleSaveNote_def app_init_def appError_def temp_id_def placeholder_def
  id_differs_def replace_selected_def digits.simps Let_def




lemma withLoading_RequestOutcome:
  assumes "network_contract net" and "fst (withLoading rq (\<lambda>res. res) net s) = Returns r"
  shows "RequestOutcome r \<and> outcome_status net r"
proof -
  have r: "fst (apiRequest rq net) = Some r"
    using withLoading_cases [of rq net "\<lambda>res. res" s] assms(2) by auto
  show ?thesis
    using apiRequest_RequestOutcome(1) [OF assms(1) r] apiRequest_outcome_status [OF r]
    by simp
qed

lemma listNotes_RequestOutcome:
  assumes "network_contract net" and "fst (listNotes net s) = Returns r"
  shows "RequestOutcome r \<and> outcome_status net r"
proof -
  let ?rq = "\<lparr>rq_method = GET, rq_path = Notes, rq_body = None, timeoutMs = None\<rparr>"
  obtain r0 where r0: "fst (apiRequest ?rq net) = Some r0" and e: "expect_array r0 = r"
    using withLoading_cases [of ?rq net expect_array s] assms(2)
    by (auto simp: listNotes_def)
  have "RequestOutcome r0 \<and> outcome_status net r0"
    using apiRequest_RequestOutcome(1) [OF assms(1) r0] apiRequest_outcome_status [OF r0]
    by simp
  then show ?thesis
    using e
    by (auto simp: expect_array_def Let_def RequestOutcome_def outcome_status_def
        split: if_splits settlement.splits)
qed

text \<open>
  Claim C4: under the network contract for error bodies, every outcome that
  \<open>apiRequest\<close> returns, and so every outcome that an operation of the resource
  client returns, satisfies the RequestOutcome invariant: with \<open>ok\<close> the error is
  \<open>null\<close>; without it the data is \<open>null\<close> and the error is a non-empty string. Its
  status is the HTTP status of the response, or 0 for a failure of the transport
  (timeout or network error), or 400 for an input that \<open>createNote\<close> or \<open>updateNote\<close>
  rejects without a request.
\<close>

theorem request_outcome_invariant:
  assumes "network_contract net"
  shows "(\<forall>r. fst (apiRequest rq net) = Some r \<longrightarrow>
            RequestOutcome r \<and> outcome_status net r)
     \<and> (\<forall>r. fst (listNotes net s) = Returns r \<longrightarrow>
            RequestOutcome r \<and> outcome_status net r)
     \<and> (\<forall>r. fst (getNote encode i net s) = Returns r \<longrightarrow>
            RequestOutcome r \<and> outcome_status net r)
     \<and> (\<forall>r. fst (deleteNote encode i net s) = Returns r \<longrightarrow>
            RequestOutcome r \<and> outcome_status net r)
     \<and> (\<forall>r. fst (createNote inp net s) = Returns r \<longrightarrow>
            RequestOutcome r
            \<and> (if valid (validateNote (sanitizeNoteInput inp)) then outcome_status net r
                else status r = 400))
     \<and> (\<forall>r. fst (updateNote encode i inp net s) = Returns r \<longrightarrow>
            RequestOutcome r
            \<and> (if valid (validateNote (sanitizeNoteInput inp)) then outcome_status net r
                else status r = 400))"
proof -
  have a: "\<forall>r. fst (apiRequest rq net) = Some r \<longrightarrow>
            RequestOutcome r \<and> outcome_status net r"
    using apiRequest_RequestOutcome(1) [OF assms] apiRequest_outcome_status
    by blast
  have l: "\<forall>r. fst (listNotes net s) = Returns r \<longrightarrow>
            RequestOutcome r \<and> outcome_status net r"
    using listNotes_RequestOutcome [OF assms] by blast
  have g: "\<forall>r. fst (getNote encode i net s) = Returns r \<longrightarrow>
            RequestOutcome r \<and> outcome_status net r"
    using withLoading_RequestOutcome [OF assms] unfolding getNote_def
    by (cases "encode i") auto
  have d: "\<forall>r. fst (deleteNote encode i net s) = Returns r \<longrightarrow>
            RequestOutcome r \<and> outcome_status net r"
    using withLoading_RequestOutcome [OF assms] unfolding deleteNote_def
    by (cases "encode i") auto
  have c: "\<forall>r. fst (createNote inp net s) = Returns r \<longrightarrow>
            RequestOutcome r
            \<and> (if valid (validateNote (sanitizeNoteInput inp)) then outcome_status net r
                else status r = 400)"
  proof (cases "valid (validateNote (sanitizeNoteInput inp))")
    case True
    show ?thesis
      using True withLoading_RequestOutcome [OF assms] unfolding createNote_valid [OF True]
      by auto
  next
    case False
    obtain m where "m \<noteq> []"
      "createNote inp net s =
         (Returns \<lparr>ok = False, status = 400, error = JStr m, data = JNull\<rparr>, s)"
      using createNote_invalid [OF False] by blast
    with False show ?thesis
      by (auto simp: RequestOutcome_def is_message_def)
  qed
  have u: "\<forall>r. fst (updateNote encode i inp net s) = Returns r \<longrightarrow>
            RequestOutcome r
            \<and> (if valid (validateNote (sanitizeNoteInput inp)) then outcome_status net r
                else status r = 400)"
  proof (cases "valid (validateNote (sanitizeNoteInput inp))")
    case True
    show ?thesis
      using True withLoading_RequestOutcome [OF assms] unfolding updateNote_valid [OF True]
      by (cases "encode i") auto
  next
    case False
    obtain m where "m \<noteq> []"
      "updateNote encode i inp net s =
         (Returns \<lparr>ok = False, status = 400, error = JStr m, data = JNull\<rparr>, s)"
      using updateNote_invalid [OF False] by blast
    with False show ?thesis
      by (auto simp: RequestOutcome_def is_message_def)
  qed
  show ?thesis
    by (intro conjI; (rule a l g d c u))
qed

theorem request_outcome_invariant_witness:
  "network_contract
     \<lparr>settles_after = Some 40,
      settlement = Responds \<lparr>res_status = 404, res_body = Reads (lit ''{\"detail\":\"Not Found\"}''),
        res_json = Some (JObj [(lit ''detail'', JStr (lit ''Not Found''))])\<rparr>\<rparr>
   \<and> fst (getNote (\<lambda>i. Some (lit ''7'')) (JNum 7)
       \<lparr>settles_after = Some 40,
        settlement = Responds \<lparr>res_status = 404, res_body = Reads (lit ''{\"detail\":\"Not Found\"}''),
          res_json = Some (JObj [(lit ''detail'', JStr (lit ''Not Found''))])\<rparr>\<rparr> api_init)
       = Returns \<lparr>ok = False, status = 404, error = JStr (lit ''Not Found''), data = JNull\<rparr>
   \<and> RequestOutcome
       \<lparr>ok = False, status = 404, error = JStr (lit ''Not Found''), data = JNull\<rparr>
   \<and> outcome_status
        \<lparr>settles_after = Some 40,
         settlement = Responds \<lparr>res_status = 404, res_body = Reads (lit ''{\"detail\":\"Not Found\"}''),
           res_json = Some (JObj [(lit ''detail'', JStr (lit ''Not Found''))])\<rparr>\<rparr>
        \<lparr>ok = False, status = 404, error = JStr (lit ''Not Found''), data = JNull\<rparr>"
proof -
  let ?net = "\<lparr>settles_after = Some 40,
      settlement = Responds \<lparr>res_status = 404, res_body = Reads (lit ''{\"detail\":\"Not Found\"}''),
        res_json = Some (JObj [(lit ''detail'', JStr (lit ''Not Found''))])\<rparr>\<rparr>"
  let ?enc = "\<lambda>i :: jsval. Some (lit ''7'')"
  let ?r = "\<lparr>ok = False, status = 404, error = JStr (lit ''Not Found''), data = JNull\<rparr>"
  have n: "network_contract ?net"
    by (simp add: network_contract_def error_body_contract_def field_of_def lit_def)
  have g: "fst (getNote ?enc (JNum 7) ?net api_init) = Returns ?r"
    by (simp add: run_defs)
  have "RequestOutcome ?r \<and> outcome_status ?net ?r"
    using request_outcome_invariant
      [OF n, of "\<lparr>rq_method = GET, rq_path = Notes, rq_body = None, timeoutMs = None\<rparr>"
         api_init ?enc "JNum 7" "\<lparr>title = Text (lit ''A''), content = Text []\<rparr>"] g
    by simp
  then show ?thesis
    using n g by simp
qed

section \<open>The coordinator's create and update flows\<close>

lemma get_prop_field_of:
  "\<not> is_nullish n \<Longrightarrow> get_prop n (lit k) = Some (field_of n k)"
  by (cases n) (simp_all add: field_of_def is_nullish_def)

lemma strict_eq_JStr: "strict_eq i (JStr x) = (i = JStr x)"
  by (cases i) simp_all

lemma filter_notes_total:
  assumes "list_all (\<lambda>n. \<not> is_nullish n) ns"
  shows "filter_notes (id_differs (JStr x)) ns
           = Some (filter (\<lambda>n. field_of n ''id'' \<noteq> JStr x) ns)"
  using assms
  by (induction ns) (simp_all add: id_differs_def get_prop_field_of strict_eq_JStr)

lemma map_notes_total:
  assumes "list_all (\<lambda>n. \<not> is_nullish n) ns"
  shows "map_notes (replace_selected sel d) ns
           = Some (map (\<lambda>n. if strict_eq (field_of n ''id'') sel then d else n) ns)"
  using assms
  by (induction ns) (simp_all add: replace_selected_def get_prop_field_of)

text \<open>
  What \<open>handleAddNote\<close> leaves behind when the create fails, for any collection of
  notes: the placeholder is gone from the collection, and the selection still
  points at it.
\<close>

lemma handleAddNote_failure:
  assumes c: "createNote \<lparr>title = Text (lit ''Untitled note''), content = Text []\<rparr> net (api s)
                = (Returns res, a)"
    and f: "\<not> (ok res \<and> truthy (data res))"
    and n: "list_all (\<lambda>n. \<not> is_nullish n) (notes s)"
  shows "handleAddNote now net s =
           Completed
             (s\<lparr>api := a,
                 notes := filter (\<lambda>n. field_of n ''id'' \<noteq> temp_id now) (notes s),
                 selectedNoteId := temp_id now, selectedNote := placeholder now,
                 busy := False\<rparr>)"
proof -
  have p: "\<not> is_nullish (placeholder now)" "field_of (placeholder now) ''id'' = temp_id now"
    by (simp_all add: placeholder_def is_nullish_def field_of_def)
  have "filter_notes (id_differs (temp_id now)) (placeholder now # notes s)
          = Some (filter (\<lambda>n. field_of n ''id'' \<noteq> temp_id now) (notes s))"
    using n p filter_notes_total [of "placeholder now # notes s" "lit ''temp-'' @ digits now"]
    by (simp add: temp_id_def)
  then show ?thesis
    using c f by (auto simp: handleAddNote_def Let_def)
qed

text \<open>
  Nor does the effect that loads the selected note clear the selection: however it
  ends, it has written neither the selected id nor the collection.
\<close>

lemma loadSelectedNote_keeps_selection:
  "\<exists>s'. state_left (loadSelectedNote encode net s) = Some s'
     \<and> selectedNoteId s' = selectedNoteId s \<and> notes s' = notes s"
  by (auto simp: loadSelectedNote_def Let_def split: prod.splits call.splits)

text \<open>
  Claim C1, evaluated: \<open>handleAddNote\<close> at clock 1700000000000 on the initial state,
  the create request failing at the network. One request was sent and the collection
  is empty again, but the selected id is still the temporary id and the selected note
  is still the placeholder: the selection is not cleared.
\<close>

theorem handleAddNote_failed_create_keeps_selection:
  "handleAddNote 1700000000000 \<lparr>settles_after = Some 40, settlement = Fails\<rparr> app_init
   = Completed
       \<lparr>api =
          \<lparr>inFlight = 0, apiLoading = False, apiError = JStr (lit ''Network error''),
           sent = [\<lparr>rq_method = POST, rq_path = Notes,
                    rq_body = Some \<lparr>title = Text (lit ''Untitled note''), content = Text []\<rparr>,
                    timeoutMs = None\<rparr>]\<rparr>,
        notes = [],
        selectedNoteId = JStr (lit ''temp-1700000000000''),
        selectedNote =
          JObj [(lit ''id'', JStr (lit ''temp-1700000000000'')),
                (lit ''title'', JStr (lit ''Untitled note'')),
                (lit ''content'', JStr [])],
        busy = False, listLoading = True, listError = JNull\<rparr>"
  by (simp add: run_defs app_defs)

text \<open>
  Claim C6: when the update does not come back \<open>ok\<close> with a note, \<open>handleSaveNote\<close>
  leaves the collection, the selected id and the selected note as they were; so it
  does when the update throws or never settles. When the update comes back \<open>ok\<close> with
  a note, the selected note becomes that note and so does every entry of the
  collection whose \<open>id\<close> is the selected id; the other entries and the selected id
  stay. (The collection holds notes: an entry that is \<open>null\<close> or \<open>undefined\<close> would make
  the updater throw.)
\<close>

theorem handleSaveNote_frame:
  assumes "updateNote encode (selectedNoteId s) payload net (api s) = (c, a)"
  shows "(\<forall>res. c = Returns res \<and> \<not> (ok res \<and> truthy (data res)) \<longrightarrow>
            (\<exists>s'. handleSaveNote encode payload net s = Completed s'
               \<and> notes s' = notes s
               \<and> selectedNoteId s' = selectedNoteId s
               \<and> selectedNote s' = selectedNote s))
     \<and> (c = Throws \<or> c = Never \<longrightarrow>
            (\<exists>s'. state_left (handleSaveNote encode payload net s) = Some s'
               \<and> notes s' = notes s
               \<and> selectedNoteId s' = selectedNoteId s
               \<and> selectedNote s' = selectedNote s))
     \<and> (\<forall>res. c = Returns res \<and> truthy (selectedNoteId s) \<and> ok res \<and> truthy (data res)
          \<and> list_all (\<lambda>n. \<not> is_nullish n) (notes s) \<longrightarrow>
            (\<exists>s'. handleSaveNote encode payload net s = Completed s'
               \<and> selectedNote s' = data res
               \<and> selectedNoteId s' = selectedNoteId s
               \<and> notes s' =
                   map (\<lambda>n. if strict_eq (field_of n ''id'') (selectedNoteId s) then data res
                            else n) (notes s)))"
  using assms
  by (auto simp: handleSaveNote_def Let_def map_notes_total)

theorem handleSaveNote_frame_witness:
  "map_option (\<lambda>s'. (notes s', selectedNoteId s', selectedNote s'))
     (state_left
       (handleSaveNote (\<lambda>i. Some (lit ''1'')) \<lparr>title = Text (lit ''A''), content = Text []\<rparr>
          \<lparr>settles_after = Some 40, settlement = Fails\<rparr>
          (app_init\<lparr>notes := [JObj [(lit ''id'', JNum 1)], JObj [(lit ''id'', JNum 2)]],
                    selectedNoteId := JNum 1, selectedNote := JObj [(lit ''id'', JNum 1)]\<rparr>)))
   = Some ([JObj [(lit ''id'', JNum 1)], JObj [(lit ''id'', JNum 2)]], JNum 1,
           JObj [(lit ''id'', JNum 1)])
   \<and> map_option (\<lambda>s'. (notes s', selectedNoteId s', selectedNote s'))
     (state_left
       (handleSaveNote (\<lambda>i. Some (lit ''1'')) \<lparr>title = Text (lit ''A''), content = Text []\<rparr>
          \<lparr>settles_after = Some 40,
           settlement = Responds \<lparr>res_status = 200,
             res_body = Reads (lit ''{\"id\":1,\"title\":\"A\"}''),
             res_json = Some (JObj [(lit ''id'', JNum 1), (lit ''title'', JStr (lit ''A''))])\<rparr>\<rparr>
          (app_init\<lparr>notes := [JObj [(lit ''id'', JNum 1)], JObj [(lit ''id'', JNum 2)]],
                    selectedNoteId := JNum 1, selectedNote := JObj [(lit ''id'', JNum 1)]\<rparr>)))
   = Some ([JObj [(lit ''id'', JNum 1), (lit ''title'', JStr (lit ''A''))],
            JObj [(lit ''id'', JNum 2)]], JNum 1,
           JObj [(lit ''id'', JNum 1), (lit ''title'', JStr (lit ''A''))])"
proof -
  let ?s = "app_init\<lparr>notes := [JObj [(lit ''id'', JNum 1)], JObj [(lit ''id'', JNum 2)]],
                  selectedNoteId := JNum 1, selectedNote := JObj [(lit ''id'', JNum 1)]\<rparr>"
  let ?enc = "\<lambda>i :: jsval. Some (lit ''1'')"
  let ?p = "\<lparr>title = Text (lit ''A''), content = Text []\<rparr>"
  let ?bad = "\<lparr>settles_after = Some 40, settlement = Fails\<rparr>"
  let ?good = "\<lparr>settles_after = Some 40,
         settlement = Responds \<lparr>res_status = 200,
           res_body = Reads (lit ''{\"id\":1,\"title\":\"A\"}''),
           res_json = Some (JObj [(lit ''id'', JNum 1), (lit ''title'', JStr (lit ''A''))])\<rparr>\<rparr>"
  have bad: "updateNote ?enc (selectedNoteId ?s) ?p ?bad (api ?s) =
      (Returns \<lparr>ok = False, status = 0, error = JStr (lit ''Network error''), data = JNull\<rparr>,
       snd (updateNote ?enc (selectedNoteId ?s) ?p ?bad (api ?s)))"
    by (simp add: run_defs app_defs)
  have good: "updateNote ?enc (selectedNoteId ?s) ?p ?good (api ?s) =
      (Returns \<lparr>ok = True, status = 200, error = JNull,
        data = JObj [(lit ''id'', JNum 1), (lit ''title'', JStr (lit ''A''))]\<rparr>,
       snd (updateNote ?enc (selectedNoteId ?s) ?p ?good (api ?s)))"
    by (simp add: run_defs app_defs)
  show ?thesis
    using handleSaveNote_frame [OF bad] handleSaveNote_frame [OF good]
    by (auto simp: app_init_def is_nullish_def field_of_def lit_def)
qed

end
